theory Spec2Isabelle
  imports Complex_Main "HOL-Library.Sublist"
begin

section \<open>EyeTest.py: ellipse-fit astigmatism heuristic\<close>

text \<open>
  The program is one procedure, \<^verbatim>\<open>analyze_astigmatism\<close>, that asks for an image file,
  runs a fixed chain of OpenCV calls on it, fits an ellipse to the largest contour and
  prints an axis-ratio report. The OpenCV, matplotlib and \<^verbatim>\<open>os.path\<close> functions it
  calls are not part of the program: they are the fields of the record \<open>cv\<close> below, and
  every theorem holds for any value of them. What the program itself does (its guards,
  the order of its calls, its arithmetic on the fitted axes, what it prints and shows) is
  modelled line by line.
\<close>

subsection \<open>Python values\<close>

text \<open>
  A Python \<^verbatim>\<open>float\<close> is an IEEE-754 double: a finite value, one of the two infinities,
  or NaN. \<open>Finite r\<close> carries the real number a finite double denotes (\<open>Finite 0\<close>
  stands for both \<^verbatim>\<open>0.0\<close> and \<^verbatim>\<open>-0.0\<close>, which the program's comparisons and its
  one division do not tell apart).
\<close>

datatype pyfloat = Finite real | PosInf | NegInf | NaN

text \<open>The exceptions the calls of the program can raise by their documented preconditions.\<close>

datatype py_error =
    ValueError          \<comment> \<open>\<^verbatim>\<open>max()\<close> of an empty sequence\<close>
  | ZeroDivisionError   \<comment> \<open>float division by zero\<close>
  | CvError             \<comment> \<open>\<^verbatim>\<open>cv2.fitEllipse\<close> on fewer than 5 points\<close>

text \<open>\<^verbatim>\<open>a < b\<close> and \<^verbatim>\<open>a > b\<close> on floats: every comparison with NaN is false.\<close>

fun py_lt :: "pyfloat \<Rightarrow> pyfloat \<Rightarrow> bool" where
  "py_lt NaN b = False"
| "py_lt a NaN = False"
| "py_lt (Finite a) (Finite b) = (a < b)"
| "py_lt (Finite a) PosInf = True"
| "py_lt (Finite a) NegInf = False"
| "py_lt PosInf b = False"
| "py_lt NegInf (Finite b) = True"
| "py_lt NegInf PosInf = True"
| "py_lt NegInf NegInf = False"

definition py_gt :: "pyfloat \<Rightarrow> pyfloat \<Rightarrow> bool" where
  "py_gt a b = py_lt b a"

text \<open>\<^verbatim>\<open>x == 0\<close> for a float \<open>x\<close> and the int literal \<open>0\<close>.\<close>

definition py_eq_zero :: "pyfloat \<Rightarrow> bool" where
  "py_eq_zero x = (x = Finite 0)"

text \<open>
  The builtins \<^verbatim>\<open>min(a, b)\<close> and \<^verbatim>\<open>max(a, b)\<close>: the first argument is kept unless the
  second is strictly smaller (strictly greater).
\<close>

definition py_min :: "pyfloat \<Rightarrow> pyfloat \<Rightarrow> pyfloat" where
  "py_min a b = (if py_lt b a then b else a)"

definition py_max :: "pyfloat \<Rightarrow> pyfloat \<Rightarrow> pyfloat" where
  "py_max a b = (if py_gt b a then b else a)"

text \<open>
  \<^verbatim>\<open>a / b\<close> on floats. A zero divisor raises; otherwise the IEEE quotient. The
  rounding of a finite quotient to a double (which may overflow to an infinity) is the
  parameter \<open>rnd\<close>.
\<close>

fun py_truediv :: "(real \<Rightarrow> pyfloat) \<Rightarrow> pyfloat \<Rightarrow> pyfloat \<Rightarrow> py_error + pyfloat" where
  "py_truediv rnd a (Finite b) =
     (if b = 0 then Inl ZeroDivisionError
      else case a of
             Finite x \<Rightarrow> Inr (rnd (x / b))
           | PosInf \<Rightarrow> Inr (if 0 < b then PosInf else NegInf)
           | NegInf \<Rightarrow> Inr (if 0 < b then NegInf else PosInf)
           | NaN \<Rightarrow> Inr NaN)"
| "py_truediv rnd (Finite x) PosInf = Inr (Finite 0)"
| "py_truediv rnd (Finite x) NegInf = Inr (Finite 0)"
| "py_truediv rnd a b = Inr NaN"

text \<open>
  \<^verbatim>\<open>max(xs, key=f)\<close>: the first item is the candidate, and a later item replaces it only
  when its key is strictly greater; the empty sequence raises \<^verbatim>\<open>ValueError\<close>.
\<close>

fun max_key_from :: "('a \<Rightarrow> real) \<Rightarrow> 'a \<Rightarrow> 'a list \<Rightarrow> 'a" where
  "max_key_from key best [] = best"
| "max_key_from key best (x # xs) =
     max_key_from key (if key best < key x then x else best) xs"

definition py_max_key :: "('a \<Rightarrow> real) \<Rightarrow> 'a list \<Rightarrow> py_error + 'a" where
  "py_max_key key xs =
     (case xs of [] \<Rightarrow> Inl ValueError | x # rest \<Rightarrow> Inr (max_key_from key x rest))"

subsection \<open>Data of the program\<close>

type_synonym point = "int \<times> int"

text \<open>A contour is the ordered sequence of its points; \<^verbatim>\<open>len(contour)\<close> is their number.\<close>

type_synonym contour = "point list"

text \<open>The value of \<^verbatim>\<open>cv2.fitEllipse\<close>: \<^verbatim>\<open>((x, y), (first_axis, second_axis), angle)\<close>.\<close>

type_synonym ellipse = "(pyfloat \<times> pyfloat) \<times> (pyfloat \<times> pyfloat) \<times> pyfloat"

datatype colour_code = COLOR_BGR2GRAY | COLOR_BGR2RGB

text \<open>
  The library functions the procedure calls, with the constant arguments of each call
  left to the call site. \<open>contourArea\<close> is a real number: on integer points OpenCV's
  result is always finite.
\<close>

record 'img cv =
  basename :: "string \<Rightarrow> string"
  imread :: "string \<Rightarrow> 'img option"
  cvtColor :: "'img \<Rightarrow> colour_code \<Rightarrow> 'img"
  GaussianBlur :: "'img \<Rightarrow> nat \<times> nat \<Rightarrow> nat \<Rightarrow> 'img"
  Canny :: "'img \<Rightarrow> nat \<Rightarrow> nat \<Rightarrow> 'img"
  findContours :: "'img \<Rightarrow> contour list"
  contourArea :: "contour \<Rightarrow> real"
  fitEllipse :: "contour \<Rightarrow> ellipse"
  draw_ellipse :: "'img \<Rightarrow> ellipse \<Rightarrow> nat \<times> nat \<times> nat \<Rightarrow> nat \<Rightarrow> 'img"
  round_double :: "real \<Rightarrow> pyfloat"

text \<open>\<^verbatim>\<open>cv2.fitEllipse\<close> asserts that its argument has at least 5 points.\<close>

definition cv_fitEllipse :: "'img cv \<Rightarrow> contour \<Rightarrow> py_error + ellipse" where
  "cv_fitEllipse cv c = (if length c < 5 then Inl CvError else Inr (fitEllipse cv c))"

subsection \<open>What a run does\<close>

text \<open>
  A printed line is the list of the pieces of its (f-)string: literal text, and floats
  formatted with \<^verbatim>\<open>:.2f\<close>.
\<close>

datatype piece = Str string | F2 pyfloat

text \<open>
  The trace of a run: each \<^verbatim>\<open>print\<close>, each OpenCV call with the argument it is applied
  to, and each displayed figure (\<^verbatim>\<open>plt.imshow\<close> of an image under a title, then
  \<^verbatim>\<open>plt.show\<close>).
\<close>

datatype 'img event =
    Print "piece list"
  | Call_imread string
  | Call_cvtColor 'img colour_code
  | Call_GaussianBlur 'img
  | Call_Canny 'img
  | Call_findContours 'img
  | Call_fitEllipse contour
  | Call_ellipse 'img ellipse
  | Show 'img string

text \<open>Lines 94-99: the axis ratio, and the warning printed on the way, if any.\<close>

definition axis_ratio_of ::
  "(real \<Rightarrow> pyfloat) \<Rightarrow> pyfloat \<Rightarrow> pyfloat \<Rightarrow> 'img event list \<times> (py_error + pyfloat)" where
  "axis_ratio_of rnd major_axis minor_axis =
     (if py_eq_zero (py_min major_axis minor_axis)
      then ([Print [Str (''Warning: Minor axis is zero. Cannot calculate a meaningful axis ratio. '' @
                         ''This may indicate a highly elongated or degenerate ellipse fit.'')]],
            Inr PosInf)
      else ([], py_truediv rnd (py_max major_axis minor_axis) (py_min major_axis minor_axis)))"

text \<open>The float literal \<^verbatim>\<open>1.1\<close>: the double \<^verbatim>\<open>0x1.199999999999ap+0\<close>.\<close>

definition threshold :: pyfloat where
  "threshold = Finite (2476979795053773 / 2251799813685248)"

text \<open>Lines 113-118: the two lines of the interpretation.\<close>

definition possible_astigmatism :: "'img event list" where
  "possible_astigmatism =
     [Print [Str ''\<newline>Interpretation: Possible Astigmatism Detected.''],
      Print [Str ''The cornea's shape appears significantly elliptical.'']]"

definition no_significant_astigmatism :: "'img event list" where
  "no_significant_astigmatism =
     [Print [Str ''\<newline>Interpretation: No Significant Astigmatism Indicated by Shape Ratio.''],
      Print [Str ''The cornea's shape appears relatively spherical or mildly elliptical.'']]"

definition interpretation_of :: "pyfloat \<Rightarrow> 'img event list" where
  "interpretation_of axis_ratio =
     (if py_gt axis_ratio threshold then possible_astigmatism else no_significant_astigmatism)"

text \<open>Lines 102-107: the results block.\<close>

definition results_block :: "ellipse \<Rightarrow> pyfloat \<Rightarrow> 'img event list" where
  "results_block e axis_ratio =
     (case e of ((x, y), (major_axis, minor_axis), angle) \<Rightarrow>
        [Print [Str ''\<newline>--- Analysis Results ---''],
         Print [Str ''Center of Ellipse: ('', F2 x, Str '', '', F2 y, Str '')''],
         Print [Str ''Major Axis Length: '', F2 major_axis, Str '' pixels''],
         Print [Str ''Minor Axis Length: '', F2 minor_axis, Str '' pixels''],
         Print [Str ''Orientation Angle: '', F2 angle, Str '' degrees''],
         Print [Str ''Axis Ratio (Major/Minor): '', F2 axis_ratio]])"

text \<open>Lines 85-127: from the fit to the final figure, for a contour that passed the guards.\<close>

definition fit_and_report ::
  "'img cv \<Rightarrow> 'img \<Rightarrow> contour \<Rightarrow> 'img event list \<times> (py_error + unit)" where
  "fit_and_report cv img largest_contour =
     (case cv_fitEllipse cv largest_contour of
        Inl err \<Rightarrow> ([Call_fitEllipse largest_contour], Inl err)
      | Inr e \<Rightarrow>
          (case e of ((x, y), (major_axis, minor_axis), angle) \<Rightarrow>
             let result_img = draw_ellipse cv img e (0, 255, 0) 2;
                 t = [Call_fitEllipse largest_contour, Call_ellipse img e]
             in (case axis_ratio_of (round_double cv) major_axis minor_axis of
                   (w, Inl err) \<Rightarrow> (t @ w, Inl err)
                 | (w, Inr axis_ratio) \<Rightarrow>
                     (t @ w @ results_block e axis_ratio @ interpretation_of axis_ratio @
                      [Print [Str ''\<newline>------------------------''],
                       Call_cvtColor result_img COLOR_BGR2RGB,
                       Show (cvtColor cv result_img COLOR_BGR2RGB) ''Ellipse Fit of Cornea''],
                      Inr ()))))"

text \<open>Lines 44-82: the stages run on a decoded image, up to the two contour guards.\<close>

definition analyze_image :: "'img cv \<Rightarrow> 'img \<Rightarrow> 'img event list \<times> (py_error + unit)" where
  "analyze_image cv img =
     (let gray = cvtColor cv img COLOR_BGR2GRAY;
          blurred = GaussianBlur cv gray (7, 7) 0;
          edges = Canny cv blurred 30 150;
          contours = findContours cv edges;
          t = [Call_cvtColor img COLOR_BGR2GRAY, Call_GaussianBlur gray,
               Call_Canny blurred, Call_findContours edges]
      in if contours = []
         then (t @ [Print [Str (''No contours found in the image. '' @
                                ''Ensure the image clearly shows the eye/cornea with good contrast.'')],
                    Call_cvtColor img COLOR_BGR2RGB,
                    Show (cvtColor cv img COLOR_BGR2RGB) ''Original Image (No Contours Found)''],
               Inr ())
         else (case py_max_key (contourArea cv) contours of
                 Inl err \<Rightarrow> (t, Inl err)
               | Inr largest_contour \<Rightarrow>
                   if length largest_contour < 5
                   then (t @ [Print [Str (''Not enough points found in the largest contour to fit an ellipse. '' @
                                          ''The contour might be too small, fragmented, or poorly detected.'')],
                              Show edges ''Edges Detected (Insufficient Points for Ellipse Fit)''],
                         Inr ())
                   else (case fit_and_report cv img largest_contour of
                           (t', r) \<Rightarrow> (t @ t', r))))"

text \<open>
  The procedure. Its argument is what the file dialog returned: the chosen path, or the
  empty string when the dialog was dismissed. The result is the trace and whether the run
  returned or raised.
\<close>

definition analyze_astigmatism ::
  "'img cv \<Rightarrow> string \<Rightarrow> 'img event list \<times> (py_error + unit)" where
  "analyze_astigmatism cv image_path =
     (if image_path = []
      then ([Print [Str ''No image selected. Exiting.'']], Inr ())
      else let t = [Print [Str ''Selected image: '', Str (basename cv image_path)],
                    Call_imread image_path]
           in (case imread cv image_path of
                 None \<Rightarrow>
                   (t @ [Print [Str ''Error: Could not load image from '', Str [CHR 0x27],
                                Str image_path, Str [CHR 0x27],
                                Str (''. '' @ ''Please check if the file exists and is a valid image format.'')]],
                    Inr ())
               | Some img \<Rightarrow> (case analyze_image cv img of (t', r) \<Rightarrow> (t @ t', r))))"

subsection \<open>Vocabulary of the statements\<close>

text \<open>The edge map and the contours the procedure computes from a decoded image.\<close>

definition edges_of :: "'img cv \<Rightarrow> 'img \<Rightarrow> 'img" where
  "edges_of cv img = Canny cv (GaussianBlur cv (cvtColor cv img COLOR_BGR2GRAY) (7, 7) 0) 30 150"

definition contours_of :: "'img cv \<Rightarrow> 'img \<Rightarrow> contour list" where
  "contours_of cv img = findContours cv (edges_of cv img)"

text \<open>The pieces of the trace that every run past the corresponding point shares.\<close>

definition selected_trace :: "'img cv \<Rightarrow> string \<Rightarrow> 'img event list" where
  "selected_trace cv p = [Print [Str ''Selected image: '', Str (basename cv p)], Call_imread p]"

definition stages_trace :: "'img cv \<Rightarrow> 'img \<Rightarrow> 'img event list" where
  "stages_trace cv img =
     [Call_cvtColor img COLOR_BGR2GRAY,
      Call_GaussianBlur (cvtColor cv img COLOR_BGR2GRAY),
      Call_Canny (GaussianBlur cv (cvtColor cv img COLOR_BGR2GRAY) (7, 7) 0),
      Call_findContours (edges_of cv img)]"

definition closing_trace :: "'img cv \<Rightarrow> 'img \<Rightarrow> ellipse \<Rightarrow> 'img event list" where
  "closing_trace cv img e =
     [Print [Str ''\<newline>------------------------''],
      Call_cvtColor (draw_ellipse cv img e (0, 255, 0) 2) COLOR_BGR2RGB,
      Show (cvtColor cv (draw_ellipse cv img e (0, 255, 0) 2) COLOR_BGR2RGB) ''Ellipse Fit of Cornea'']"

text \<open>
  A run reaches the ellipse fit with contour \<open>c\<close>: a file was chosen, it decoded to
  \<open>img\<close>, contours were found, and the largest of them, \<open>c\<close>, has at least 5 points.
\<close>

definition fit_reached :: "'img cv \<Rightarrow> string \<Rightarrow> 'img \<Rightarrow> contour \<Rightarrow> bool" where
  "fit_reached cv p img c \<longleftrightarrow>
     p \<noteq> [] \<and> imread cv p = Some img \<and>
     py_max_key (contourArea cv) (contours_of cv img) = Inr c \<and> 5 \<le> length c"

text \<open>The text a \<^verbatim>\<open>print\<close> writes, for a given \<^verbatim>\<open>:.2f\<close> formatting of floats.\<close>

fun render_piece :: "(pyfloat \<Rightarrow> string) \<Rightarrow> piece \<Rightarrow> string" where
  "render_piece fmt (Str s) = s"
| "render_piece fmt (F2 x) = fmt x"

definition render :: "(pyfloat \<Rightarrow> string) \<Rightarrow> piece list \<Rightarrow> string" where
  "render fmt ps = concat (map (render_piece fmt) ps)"

text \<open>The lines a run prints, in order.\<close>

definition printed :: "'img event list \<Rightarrow> piece list list" where
  "printed t = [ps. Print ps \<leftarrow> t]"

subsection \<open>A concrete library for the examples\<close>

text \<open>
  Modelled from the spec: \<^verbatim>\<open>cv2.contourArea\<close> is OpenCV's, not the program's; the spec
  describes it as the shoelace-formula area of the closed polygon. It is used only to
  instantiate the \<open>contourArea\<close> field in the examples.
\<close>

fun cross_sum :: "contour \<Rightarrow> int" where
  "cross_sum ((x1, y1) # (x2, y2) # ps) = x1 * y2 - x2 * y1 + cross_sum ((x2, y2) # ps)"
| "cross_sum ps = 0"

definition shoelace_area :: "contour \<Rightarrow> real" where
  "shoelace_area c =
     (case c of [] \<Rightarrow> 0 | p # ps \<Rightarrow> \<bar>real_of_int (cross_sum (p # ps @ [p]))\<bar> / 2)"

text \<open>
  A library over images named by numbers: only \<^verbatim>\<open>eye.png\<close> and \<^verbatim>\<open>copy of eye.png\<close>
  decode, both to image 0; the contours found and the ellipse fitted are the arguments.
\<close>

definition demo_cv :: "contour list \<Rightarrow> ellipse \<Rightarrow> nat cv" where
  "demo_cv cs e =
     \<lparr> basename = (\<lambda>p. p),
       imread = (\<lambda>p. if p = ''eye.png'' \<or> p = ''copy of eye.png'' then Some 0 else None),
       cvtColor = (\<lambda>i code. i),
       GaussianBlur = (\<lambda>i ksize sigma. i),
       Canny = (\<lambda>i lo hi. i + 1),
       findContours = (\<lambda>i. cs),
       contourArea = shoelace_area,
       fitEllipse = (\<lambda>c. e),
       draw_ellipse = (\<lambda>i e colour thickness. i + 2),
       round_double = Finite \<rparr>"

definition c_thin :: contour where
  "c_thin = [(0, 0), (60, 0), (60, 1), (40, 1), (20, 1), (0, 1)]"

definition c_square :: contour where
  "c_square = [(0, 0), (10, 0), (10, 10), (5, 10), (0, 10)]"

definition c_square' :: contour where
  "c_square' = [(20, 20), (30, 20), (30, 30), (20, 30), (20, 25)]"

definition c_four :: contour where
  "c_four = [(0, 0), (10, 0), (10, 10), (0, 10)]"

definition e_fit :: ellipse where
  "e_fit = ((Finite 5, Finite 5), (Finite 4, Finite 5), Finite 0)"

definition e_round :: ellipse where
  "e_round = ((Finite 5, Finite 5), (Finite 5, Finite 5), Finite 0)"

definition e_degenerate :: ellipse where
  "e_degenerate = ((Finite 5, Finite 5), (Finite 0, Finite 5), Finite 0)"

subsection \<open>The paths of a run\<close>

lemma analyze_astigmatism_decoded:
  "p \<noteq> [] \<Longrightarrow> imread cv p = Some img \<Longrightarrow>
   analyze_astigmatism cv p =
     (selected_trace cv p @ fst (analyze_image cv img), snd (analyze_image cv img))"
  by (simp add: analyze_astigmatism_def Let_def selected_trace_def split: prod.splits)

lemma analyze_image_no_contours:
  "contours_of cv img = [] \<Longrightarrow>
   analyze_image cv img =
     (stages_trace cv img @
      [Print [Str ''No contours found in the image. Ensure the image clearly shows the eye/cornea with good contrast.''],
       Call_cvtColor img COLOR_BGR2RGB,
       Show (cvtColor cv img COLOR_BGR2RGB) ''Original Image (No Contours Found)''],
      Inr ())"
  by (simp add: analyze_image_def Let_def contours_of_def edges_of_def stages_trace_def)

lemma py_max_key_Inr_nonempty: "py_max_key key xs = Inr c \<Longrightarrow> xs \<noteq> []"
  by (auto simp: py_max_key_def)

lemma py_max_key_nonempty: "xs \<noteq> [] \<Longrightarrow> \<exists>c. py_max_key key xs = Inr c"
  by (cases xs) (simp_all add: py_max_key_def)

lemma analyze_image_insufficient:
  "py_max_key (contourArea cv) (contours_of cv img) = Inr c \<Longrightarrow> length c < 5 \<Longrightarrow>
   analyze_image cv img =
     (stages_trace cv img @
      [Print [Str ''Not enough points found in the largest contour to fit an ellipse. The contour might be too small, fragmented, or poorly detected.''],
       Show (edges_of cv img) ''Edges Detected (Insufficient Points for Ellipse Fit)''],
      Inr ())"
  using py_max_key_Inr_nonempty[of "contourArea cv" "contours_of cv img" c]
  by (simp add: analyze_image_def Let_def contours_of_def edges_of_def stages_trace_def)

lemma analyze_image_fit:
  "py_max_key (contourArea cv) (contours_of cv img) = Inr c \<Longrightarrow> 5 \<le> length c \<Longrightarrow>
   analyze_image cv img =
     (stages_trace cv img @ fst (fit_and_report cv img c), snd (fit_and_report cv img c))"
  using py_max_key_Inr_nonempty[of "contourArea cv" "contours_of cv img" c]
  by (simp add: analyze_image_def Let_def contours_of_def edges_of_def stages_trace_def split: prod.splits)

lemma py_truediv_nonzero:
  "b \<noteq> Finite 0 \<Longrightarrow> \<exists>r. py_truediv rnd a b = Inr r"
  by (cases a; cases b) auto

lemma axis_ratio_of_cases:
  "\<exists>w r. axis_ratio_of rnd ma mi = (w, Inr r)"
  using py_truediv_nonzero[of "py_min ma mi" rnd "py_max ma mi"]
  by (auto simp: axis_ratio_of_def py_eq_zero_def)

lemma fit_and_report_eq:
  "5 \<le> length c \<Longrightarrow> fitEllipse cv c = ((x, y), (ma, mi), ang) \<Longrightarrow>
   axis_ratio_of (round_double cv) ma mi = (w, Inr r) \<Longrightarrow>
   fit_and_report cv img c =
     ([Call_fitEllipse c, Call_ellipse img ((x, y), (ma, mi), ang)] @ w @
      results_block ((x, y), (ma, mi), ang) r @ interpretation_of r @
      closing_trace cv img ((x, y), (ma, mi), ang), Inr ())"
  by (simp add: fit_and_report_def Let_def cv_fitEllipse_def closing_trace_def)

lemma fit_and_report_returns: "5 \<le> length c \<Longrightarrow> snd (fit_and_report cv img c) = Inr ()"
proof -
  assume len: "5 \<le> length c"
  obtain x y ma mi ang where e: "fitEllipse cv c = ((x, y), (ma, mi), ang)"
    by (metis prod.exhaust)
  obtain w r where "axis_ratio_of (round_double cv) ma mi = (w :: 'a event list, Inr r)"
    using axis_ratio_of_cases by blast
  from fit_and_report_eq[OF len e this] show ?thesis by simp
qed

lemma analyze_image_returns: "snd (analyze_image cv img) = Inr ()"
proof (cases "contours_of cv img = []")
  case True
  then show ?thesis by (simp add: analyze_image_no_contours)
next
  case False
  then obtain c where c: "py_max_key (contourArea cv) (contours_of cv img) = Inr c"
    using py_max_key_nonempty by blast
  show ?thesis
  proof (cases "length c < 5")
    case True
    with c show ?thesis by (simp add: analyze_image_insufficient)
  next
    case False
    with c show ?thesis by (simp add: analyze_image_fit fit_and_report_returns)
  qed
qed

lemma analyze_astigmatism_returns: "snd (analyze_astigmatism cv p) = Inr ()"
  by (cases "p = []"; cases "imread cv p")
     (simp_all add: analyze_astigmatism_def analyze_image_returns split: prod.splits,
      metis analyze_image_returns snd_conv)

lemma max_key_from_split:
  "\<exists>pre post. b # xs = pre @ max_key_from key b xs # post \<and>
      (\<forall>y\<in>set pre. key y < key (max_key_from key b xs)) \<and>
      (\<forall>y\<in>set post. key y \<le> key (max_key_from key b xs))"
proof (induction xs arbitrary: b)
  case Nil
  have "[b] = [] @ b # []" by simp
  then show ?case by (metis empty_iff list.set(1) max_key_from.simps(1))
next
  case (Cons x xs)
  define b' where "b' = (if key b < key x then x else b)"
  define m where "m = max_key_from key b' xs"
  from Cons.IH[of b'] obtain pre post where
    split: "b' # xs = pre @ m # post" and
    before: "\<forall>y\<in>set pre. key y < key m" and
    after: "\<forall>y\<in>set post. key y \<le> key m"
    unfolding m_def by blast
  have res: "max_key_from key b (x # xs) = m" by (simp add: m_def b'_def)
  have b'_le: "key b' \<le> key m"
  proof (cases pre)
    case Nil
    with split show ?thesis by simp
  next
    case (Cons p ps)
    with split before show ?thesis by auto
  qed
  have "\<exists>pre post. b # x # xs = pre @ m # post \<and>
      (\<forall>y\<in>set pre. key y < key m) \<and> (\<forall>y\<in>set post. key y \<le> key m)"
  proof (cases "key b < key x")
    case True
    then have b': "b' = x" by (simp add: b'_def)
    from split have "b # x # xs = (b # pre) @ m # post" by (simp add: b')
    moreover from True b'_le before have "\<forall>y\<in>set (b # pre). key y < key m"
      by (auto simp: b')
    ultimately show ?thesis using after by blast
  next
    case False
    then have b': "b' = b" by (simp add: b'_def)
    show ?thesis
    proof (cases pre)
      case Nil
      with split have "m = b" "post = xs" by (simp_all add: b')
      with False after have "b # x # xs = [] @ m # (x # xs)"
        "\<forall>y\<in>set (x # xs). key y \<le> key m" by auto
      then show ?thesis by (metis empty_iff list.set(1))
    next
      case (Cons p ps)
      with split have p: "p = b" "xs = ps @ m # post" by (simp_all add: b')
      from before Cons p have "key b < key m" by simp
      with Cons p before False have "b # x # xs = (b # x # ps) @ m # post"
        "\<forall>y\<in>set (b # x # ps). key y < key m" by auto
      then show ?thesis using after by blast
    qed
  qed
  then show ?case unfolding res .
qed

lemma py_max_key_first_max:
  assumes "xs \<noteq> []"
  shows "\<exists>i<length xs. py_max_key key xs = Inr (xs ! i) \<and>
           (\<forall>j<length xs. key (xs ! j) \<le> key (xs ! i)) \<and>
           (\<forall>j<i. key (xs ! j) < key (xs ! i))"
proof -
  from assms obtain b rest where xs: "xs = b # rest" by (cases xs) auto
  let ?m = "max_key_from key b rest"
  from max_key_from_split[of b rest key] obtain pre post where
    split: "xs = pre @ ?m # post" and
    before: "\<forall>y\<in>set pre. key y < key ?m" and
    after: "\<forall>y\<in>set post. key y \<le> key ?m"
    unfolding xs by blast
  let ?i = "length pre"
  have i: "?i < length xs" and at: "xs ! ?i = ?m" using split by simp_all
  have sel: "py_max_key key xs = Inr (xs ! ?i)" using at by (simp add: xs py_max_key_def)
  have le: "key (xs ! j) \<le> key (xs ! ?i)" if "j < length xs" for j
  proof -
    from that have "xs ! j \<in> set xs" by simp
    then have "xs ! j \<in> set pre \<or> xs ! j = ?m \<or> xs ! j \<in> set post"
      by (subst (asm) (2) split) auto
    with before after at show ?thesis by force
  qed
  have lt: "key (xs ! j) < key (xs ! ?i)" if "j < ?i" for j
  proof -
    from that have "xs ! j = pre ! j" by (subst split) (simp add: nth_append)
    with that before at show ?thesis by simp
  qed
  from i sel le lt show ?thesis by blast
qed
lemma analyze_astigmatism_success:
  assumes "fit_reached cv p img c"
    and "fitEllipse cv c = ((x, y), (ma, mi), ang)"
    and "axis_ratio_of (round_double cv) ma mi = (w, Inr r)"
  shows "analyze_astigmatism cv p =
           (selected_trace cv p @ stages_trace cv img @
            [Call_fitEllipse c, Call_ellipse img ((x, y), (ma, mi), ang)] @ w @
            results_block ((x, y), (ma, mi), ang) r @ interpretation_of r @
            closing_trace cv img ((x, y), (ma, mi), ang), Inr ())"
proof -
  from assms(1) have p: "p \<noteq> []" and img: "imread cv p = Some img"
    and c: "py_max_key (contourArea cv) (contours_of cv img) = Inr c" and len: "5 \<le> length c"
    by (simp_all add: fit_reached_def)
  show ?thesis
    by (simp add: analyze_astigmatism_decoded[OF p img] analyze_image_fit[OF c len]
        fit_and_report_eq[OF len assms(2) assms(3)])
qed

lemma axis_ratio_of_warning:
  "axis_ratio_of rnd ma mi = (w, res) \<Longrightarrow>
   w = [] \<or> w = [Print [Str ''Warning: Minor axis is zero. Cannot calculate a meaningful axis ratio. This may indicate a highly elongated or degenerate ellipse fit.'']]"
  by (auto simp: axis_ratio_of_def split: if_splits)

lemma fitEllipse_called_iff:
  "Call_fitEllipse c \<in> set (fst (analyze_astigmatism cv p)) \<longleftrightarrow> (\<exists>img. fit_reached cv p img c)"
proof (cases "p = []")
  case True
  then show ?thesis by (simp add: analyze_astigmatism_def fit_reached_def)
next
  case p: False
  show ?thesis
  proof (cases "imread cv p")
    case None
    with p show ?thesis by (simp add: analyze_astigmatism_def fit_reached_def)
  next
    case (Some img)
    note dec = analyze_astigmatism_decoded[OF p Some]
    show ?thesis
    proof (cases "contours_of cv img = []")
      case True
      then have "py_max_key (contourArea cv) (contours_of cv img) = Inl ValueError"
        by (simp add: py_max_key_def)
      with True Some show ?thesis
        by (simp add: dec analyze_image_no_contours selected_trace_def stages_trace_def
            fit_reached_def)
    next
      case False
      then obtain c0 where c0: "py_max_key (contourArea cv) (contours_of cv img) = Inr c0"
        using py_max_key_nonempty by blast
      show ?thesis
      proof (cases "length c0 < 5")
        case True
        with c0 Some show ?thesis
          by (auto simp: dec analyze_image_insufficient selected_trace_def stages_trace_def
              fit_reached_def)
      next
        case False
        then have reached: "fit_reached cv p img c0"
          using p Some c0 by (simp add: fit_reached_def)
        obtain x y ma mi ang where e: "fitEllipse cv c0 = ((x, y), (ma, mi), ang)"
          by (metis prod.exhaust)
        obtain w r where ar: "axis_ratio_of (round_double cv) ma mi = (w :: 'a event list, Inr r)"
          using axis_ratio_of_cases by blast
        have "Call_fitEllipse c \<in> set (fst (analyze_astigmatism cv p)) \<longleftrightarrow> c = c0"
          using axis_ratio_of_warning[OF ar]
          by (auto simp: analyze_astigmatism_success[OF reached e ar] selected_trace_def
              stages_trace_def results_block_def interpretation_of_def possible_astigmatism_def
              no_significant_astigmatism_def closing_trace_def)
        moreover have "(\<exists>img. fit_reached cv p img c) \<longleftrightarrow> c = c0"
          using reached Some c0 by (auto simp: fit_reached_def)
        ultimately show ?thesis by simp
      qed
    qed
  qed
qed

lemma report_printed_iff:
  "Print [Str ''\<newline>--- Analysis Results ---''] \<in> set (fst (analyze_astigmatism cv p)) \<longleftrightarrow>
   (\<exists>img c. fit_reached cv p img c)"
proof (cases "p = []")
  case True
  then show ?thesis by (simp add: analyze_astigmatism_def fit_reached_def)
next
  case p: False
  show ?thesis
  proof (cases "imread cv p")
    case None
    with p show ?thesis by (simp add: analyze_astigmatism_def fit_reached_def)
  next
    case (Some img)
    note dec = analyze_astigmatism_decoded[OF p Some]
    show ?thesis
    proof (cases "contours_of cv img = []")
      case True
      then have "py_max_key (contourArea cv) (contours_of cv img) = Inl ValueError"
        by (simp add: py_max_key_def)
      with True Some show ?thesis
        by (simp add: dec analyze_image_no_contours selected_trace_def stages_trace_def
            fit_reached_def)
    next
      case False
      then obtain c0 where c0: "py_max_key (contourArea cv) (contours_of cv img) = Inr c0"
        using py_max_key_nonempty by blast
      show ?thesis
      proof (cases "length c0 < 5")
        case True
        with c0 Some show ?thesis
          by (auto simp: dec analyze_image_insufficient selected_trace_def stages_trace_def
              fit_reached_def)
      next
        case False
        then have reached: "fit_reached cv p img c0"
          using p Some c0 by (simp add: fit_reached_def)
        obtain x y ma mi ang where e: "fitEllipse cv c0 = ((x, y), (ma, mi), ang)"
          by (metis prod.exhaust)
        obtain w r where ar: "axis_ratio_of (round_double cv) ma mi = (w :: 'a event list, Inr r)"
          using axis_ratio_of_cases by blast
        have "Print [Str ''\<newline>--- Analysis Results ---''] \<in> set (fst (analyze_astigmatism cv p))"
          by (simp add: analyze_astigmatism_success[OF reached e ar] results_block_def)
        with reached show ?thesis by blast
      qed
    qed
  qed
qed

lemma py_min_Finite: "py_min (Finite a) (Finite b) = Finite (min a b)"
  by (simp add: py_min_def min_def)

lemma py_max_Finite: "py_max (Finite a) (Finite b) = Finite (max a b)"
  by (simp add: py_max_def py_gt_def max_def)

lemma py_gt_PosInf_threshold: "py_gt PosInf threshold"
  by (simp add: py_gt_def threshold_def)

lemma printed_simps:
  "printed [] = []"
  "printed (Print ps # t) = ps # printed t"
  "printed (Call_imread s # t) = printed t"
  "printed (Call_cvtColor i cc # t) = printed t"
  "printed (Call_GaussianBlur i # t) = printed t"
  "printed (Call_Canny i # t) = printed t"
  "printed (Call_findContours i # t) = printed t"
  "printed (Call_fitEllipse c # t) = printed t"
  "printed (Call_ellipse i e # t) = printed t"
  "printed (Show i s # t) = printed t"
  "printed (t @ u) = printed t @ printed u"
  by (simp_all add: printed_def)

section \<open>The claims\<close>

text \<open>
  C1. In every run that reaches the fit, with fitted axes \<open>ma\<close> and \<open>mi\<close>, the ratio
  computation returns a float and never raises: when \<^verbatim>\<open>min(ma, mi) == 0\<close> the warning
  is printed and the ratio is the positive infinity; otherwise no warning is printed and
  the ratio is the float quotient \<^verbatim>\<open>max(ma, mi) / min(ma, mi)\<close> (for finite axes, the
  rounded real quotient of the larger by the smaller). In both cases the run goes on to
  the results block, the interpretation and the figure, and returns. The results block is
  printed exactly in the runs that reach the fit: the other four conditions end the run,
  the degenerate fit does not.
\<close>

theorem axis_ratio_or_sentinel:
  "(fit_reached cv p img c \<and> fitEllipse cv c = ((x, y), (ma, mi), ang) \<longrightarrow>
      (\<exists>w r. axis_ratio_of (round_double cv) ma mi = (w, Inr r) \<and>
         (py_eq_zero (py_min ma mi) \<longrightarrow>
            r = PosInf \<and>
            w = [Print [Str ''Warning: Minor axis is zero. Cannot calculate a meaningful axis ratio. This may indicate a highly elongated or degenerate ellipse fit.'']]) \<and>
         (\<not> py_eq_zero (py_min ma mi) \<longrightarrow>
            w = [] \<and> py_truediv (round_double cv) (py_max ma mi) (py_min ma mi) = Inr r) \<and>
         (\<forall>a b. ma = Finite a \<and> mi = Finite b \<and> min a b \<noteq> 0 \<longrightarrow>
            r = round_double cv (max a b / min a b)) \<and>
         analyze_astigmatism cv p =
           (selected_trace cv p @ stages_trace cv img @
            [Call_fitEllipse c, Call_ellipse img ((x, y), (ma, mi), ang)] @ w @
            results_block ((x, y), (ma, mi), ang) r @ interpretation_of r @
            closing_trace cv img ((x, y), (ma, mi), ang), Inr ()))) \<and>
   snd (analyze_astigmatism cv p) \<noteq> Inl ZeroDivisionError \<and>
   (Print [Str ''\<newline>--- Analysis Results ---''] \<in> set (fst (analyze_astigmatism cv p)) \<longleftrightarrow>
      (\<exists>img c. fit_reached cv p img c))"
proof (intro conjI impI)
  assume h: "fit_reached cv p img c \<and> fitEllipse cv c = ((x, y), (ma, mi), ang)"
  obtain w r where ar: "axis_ratio_of (round_double cv) ma mi = (w :: 'a event list, Inr r)"
    using axis_ratio_of_cases by blast
  have zero: "r = PosInf \<and>
            w = [Print [Str ''Warning: Minor axis is zero. Cannot calculate a meaningful axis ratio. This may indicate a highly elongated or degenerate ellipse fit.'']]"
    if "py_eq_zero (py_min ma mi)"
    using ar that by (simp add: axis_ratio_of_def)
  have nonzero: "w = [] \<and> py_truediv (round_double cv) (py_max ma mi) (py_min ma mi) = Inr r"
    if "\<not> py_eq_zero (py_min ma mi)"
    using ar that by (simp add: axis_ratio_of_def)
  have finite: "r = round_double cv (max a b / min a b)"
    if "ma = Finite a \<and> mi = Finite b \<and> min a b \<noteq> 0" for a b
  proof -
    from that have "\<not> py_eq_zero (py_min ma mi)"
      by (simp add: py_min_Finite py_eq_zero_def)
    from nonzero[OF this] that show ?thesis
      by (simp add: py_min_Finite py_max_Finite)
  qed
  from h have run: "analyze_astigmatism cv p =
           (selected_trace cv p @ stages_trace cv img @
            [Call_fitEllipse c, Call_ellipse img ((x, y), (ma, mi), ang)] @ w @
            results_block ((x, y), (ma, mi), ang) r @ interpretation_of r @
            closing_trace cv img ((x, y), (ma, mi), ang), Inr ())"
    using analyze_astigmatism_success[OF _ _ ar] by blast
  from ar zero nonzero finite run
  show "\<exists>w r. axis_ratio_of (round_double cv) ma mi = (w, Inr r) \<and>
         (py_eq_zero (py_min ma mi) \<longrightarrow>
            r = PosInf \<and>
            w = [Print [Str ''Warning: Minor axis is zero. Cannot calculate a meaningful axis ratio. This may indicate a highly elongated or degenerate ellipse fit.'']]) \<and>
         (\<not> py_eq_zero (py_min ma mi) \<longrightarrow>
            w = [] \<and> py_truediv (round_double cv) (py_max ma mi) (py_min ma mi) = Inr r) \<and>
         (\<forall>a b. ma = Finite a \<and> mi = Finite b \<and> min a b \<noteq> 0 \<longrightarrow>
            r = round_double cv (max a b / min a b)) \<and>
         analyze_astigmatism cv p =
           (selected_trace cv p @ stages_trace cv img @
            [Call_fitEllipse c, Call_ellipse img ((x, y), (ma, mi), ang)] @ w @
            results_block ((x, y), (ma, mi), ang) r @ interpretation_of r @
            closing_trace cv img ((x, y), (ma, mi), ang), Inr ())"
    by blast
next
  show "snd (analyze_astigmatism cv p) \<noteq> Inl ZeroDivisionError"
    by (simp add: analyze_astigmatism_returns)
next
  show "Print [Str ''\<newline>--- Analysis Results ---''] \<in> set (fst (analyze_astigmatism cv p)) \<longleftrightarrow>
      (\<exists>img c. fit_reached cv p img c)"
    by (rule report_printed_iff)
qed

theorem axis_ratio_or_sentinel_witness:
  "(fit_reached (demo_cv [c_square] e_fit) ''eye.png'' 0 c_square \<and>
    fitEllipse (demo_cv [c_square] e_fit) c_square = ((Finite 5, Finite 5), (Finite 4, Finite 5), Finite 0) \<and>
    \<not> py_eq_zero (py_min (Finite 4) (Finite 5)) \<and> min (4 :: real) 5 \<noteq> 0 \<and>
    axis_ratio_of Finite (Finite 4) (Finite 5) = ([] :: nat event list, Inr (Finite (5 / 4))) \<and>
    analyze_astigmatism (demo_cv [c_square] e_fit) ''eye.png'' =
      ([Print [Str ''Selected image: '', Str ''eye.png''], Call_imread ''eye.png'',
        Call_cvtColor 0 COLOR_BGR2GRAY, Call_GaussianBlur 0, Call_Canny 0, Call_findContours 1,
        Call_fitEllipse c_square, Call_ellipse 0 e_fit,
        Print [Str ''\<newline>--- Analysis Results ---''],
        Print [Str ''Center of Ellipse: ('', F2 (Finite 5), Str '', '', F2 (Finite 5), Str '')''],
        Print [Str ''Major Axis Length: '', F2 (Finite 4), Str '' pixels''],
        Print [Str ''Minor Axis Length: '', F2 (Finite 5), Str '' pixels''],
        Print [Str ''Orientation Angle: '', F2 (Finite 0), Str '' degrees''],
        Print [Str ''Axis Ratio (Major/Minor): '', F2 (Finite (5 / 4))]] @
       possible_astigmatism @
       [Print [Str ''\<newline>------------------------''],
        Call_cvtColor 2 COLOR_BGR2RGB, Show 2 ''Ellipse Fit of Cornea''],
       Inr ())) \<and>
   (fit_reached (demo_cv [c_square] e_degenerate) ''eye.png'' 0 c_square \<and>
    fitEllipse (demo_cv [c_square] e_degenerate) c_square = ((Finite 5, Finite 5), (Finite 0, Finite 5), Finite 0) \<and>
    py_eq_zero (py_min (Finite 0) (Finite 5)) \<and>
    analyze_astigmatism (demo_cv [c_square] e_degenerate) ''eye.png'' =
      ([Print [Str ''Selected image: '', Str ''eye.png''], Call_imread ''eye.png'',
        Call_cvtColor 0 COLOR_BGR2GRAY, Call_GaussianBlur 0, Call_Canny 0, Call_findContours 1,
        Call_fitEllipse c_square, Call_ellipse 0 e_degenerate,
        Print [Str ''Warning: Minor axis is zero. Cannot calculate a meaningful axis ratio. This may indicate a highly elongated or degenerate ellipse fit.''],
        Print [Str ''\<newline>--- Analysis Results ---''],
        Print [Str ''Center of Ellipse: ('', F2 (Finite 5), Str '', '', F2 (Finite 5), Str '')''],
        Print [Str ''Major Axis Length: '', F2 (Finite 0), Str '' pixels''],
        Print [Str ''Minor Axis Length: '', F2 (Finite 5), Str '' pixels''],
        Print [Str ''Orientation Angle: '', F2 (Finite 0), Str '' degrees''],
        Print [Str ''Axis Ratio (Major/Minor): '', F2 PosInf]] @
       possible_astigmatism @
       [Print [Str ''\<newline>------------------------''],
        Call_cvtColor 2 COLOR_BGR2RGB, Show 2 ''Ellipse Fit of Cornea''],
       Inr ()))"
proof -
  let ?cv = "demo_cv [c_square] e_fit"
  let ?deg = "demo_cv [c_square] e_degenerate"
  have r1: "fit_reached ?cv ''eye.png'' 0 c_square"
    by (simp add: fit_reached_def demo_cv_def contours_of_def py_max_key_def c_square_def)
  have e1: "fitEllipse ?cv c_square = ((Finite 5, Finite 5), (Finite 4, Finite 5), Finite 0)"
    by (simp add: demo_cv_def e_fit_def)
  have n1: "\<not> py_eq_zero (py_min (Finite 4) (Finite 5))"
    by (simp add: py_min_Finite py_eq_zero_def)
  have m1: "min (4 :: real) 5 \<noteq> 0" by simp
  have rd: "round_double ?cv = Finite" "round_double ?deg = Finite" by (simp_all add: demo_cv_def)
  from axis_ratio_or_sentinel[of ?cv "''eye.png''" 0 c_square "Finite 5" "Finite 5" "Finite 4" "Finite 5" "Finite 0"]
    r1 e1
  obtain w r where
    ar1: "axis_ratio_of (round_double ?cv) (Finite 4) (Finite 5) = (w, Inr r)" and
    nz1: "\<not> py_eq_zero (py_min (Finite 4) (Finite 5)) \<longrightarrow> w = [] \<and>
          py_truediv (round_double ?cv) (py_max (Finite 4) (Finite 5)) (py_min (Finite 4) (Finite 5)) = Inr r" and
    fin1: "\<forall>a b. Finite 4 = Finite a \<and> Finite 5 = Finite b \<and> min a b \<noteq> 0 \<longrightarrow>
            r = round_double ?cv (max a b / min a b)" and
    run1: "analyze_astigmatism ?cv ''eye.png'' =
           (selected_trace ?cv ''eye.png'' @ stages_trace ?cv 0 @
            [Call_fitEllipse c_square, Call_ellipse 0 ((Finite 5, Finite 5), (Finite 4, Finite 5), Finite 0)] @ w @
            results_block ((Finite 5, Finite 5), (Finite 4, Finite 5), Finite 0) r @ interpretation_of r @
            closing_trace ?cv 0 ((Finite 5, Finite 5), (Finite 4, Finite 5), Finite 0), Inr ())"
    by blast
  from nz1 n1 have w1: "w = []" by blast
  from fin1 m1 have "r = round_double ?cv (max 4 5 / min 4 5)" by blast
  then have r1v: "r = Finite (5 / 4)" by (simp add: rd)
  have ar1': "axis_ratio_of Finite (Finite 4) (Finite 5) = ([] :: nat event list, Inr (Finite (5 / 4)))"
    using ar1 by (simp add: w1 r1v rd)
  have i1: "interpretation_of (Finite (5 / 4)) = (possible_astigmatism :: nat event list)"
    by (simp add: interpretation_of_def py_gt_def threshold_def)
  have t1: "analyze_astigmatism ?cv ''eye.png'' =
      ([Print [Str ''Selected image: '', Str ''eye.png''], Call_imread ''eye.png'',
        Call_cvtColor 0 COLOR_BGR2GRAY, Call_GaussianBlur 0, Call_Canny 0, Call_findContours 1,
        Call_fitEllipse c_square, Call_ellipse 0 e_fit,
        Print [Str ''\<newline>--- Analysis Results ---''],
        Print [Str ''Center of Ellipse: ('', F2 (Finite 5), Str '', '', F2 (Finite 5), Str '')''],
        Print [Str ''Major Axis Length: '', F2 (Finite 4), Str '' pixels''],
        Print [Str ''Minor Axis Length: '', F2 (Finite 5), Str '' pixels''],
        Print [Str ''Orientation Angle: '', F2 (Finite 0), Str '' degrees''],
        Print [Str ''Axis Ratio (Major/Minor): '', F2 (Finite (5 / 4))]] @
       possible_astigmatism @
       [Print [Str ''\<newline>------------------------''],
        Call_cvtColor 2 COLOR_BGR2RGB, Show 2 ''Ellipse Fit of Cornea''],
       Inr ())"
    unfolding run1 w1 r1v i1
    by (simp add: selected_trace_def stages_trace_def closing_trace_def results_block_def
        edges_of_def demo_cv_def e_fit_def)
  have r2: "fit_reached ?deg ''eye.png'' 0 c_square"
    by (simp add: fit_reached_def demo_cv_def contours_of_def py_max_key_def c_square_def)
  have e2: "fitEllipse ?deg c_square = ((Finite 5, Finite 5), (Finite 0, Finite 5), Finite 0)"
    by (simp add: demo_cv_def e_degenerate_def)
  have z2: "py_eq_zero (py_min (Finite 0) (Finite 5))"
    by (simp add: py_min_Finite py_eq_zero_def)
  from axis_ratio_or_sentinel[of ?deg "''eye.png''" 0 c_square "Finite 5" "Finite 5" "Finite 0" "Finite 5" "Finite 0"]
    r2 e2
  obtain w' r' where
    z2': "py_eq_zero (py_min (Finite 0) (Finite 5)) \<longrightarrow> r' = PosInf \<and>
            w' = [Print [Str ''Warning: Minor axis is zero. Cannot calculate a meaningful axis ratio. This may indicate a highly elongated or degenerate ellipse fit.'']]" and
    run2: "analyze_astigmatism ?deg ''eye.png'' =
           (selected_trace ?deg ''eye.png'' @ stages_trace ?deg 0 @
            [Call_fitEllipse c_square, Call_ellipse 0 ((Finite 5, Finite 5), (Finite 0, Finite 5), Finite 0)] @ w' @
            results_block ((Finite 5, Finite 5), (Finite 0, Finite 5), Finite 0) r' @ interpretation_of r' @
            closing_trace ?deg 0 ((Finite 5, Finite 5), (Finite 0, Finite 5), Finite 0), Inr ())"
    by blast
  from z2' z2 have r2v: "r' = PosInf" and w2: "w' = [Print [Str ''Warning: Minor axis is zero. Cannot calculate a meaningful axis ratio. This may indicate a highly elongated or degenerate ellipse fit.'']]"
    by blast+
  have i2: "interpretation_of PosInf = (possible_astigmatism :: nat event list)"
    by (simp add: interpretation_of_def py_gt_def threshold_def)
  have t2: "analyze_astigmatism ?deg ''eye.png'' =
      ([Print [Str ''Selected image: '', Str ''eye.png''], Call_imread ''eye.png'',
        Call_cvtColor 0 COLOR_BGR2GRAY, Call_GaussianBlur 0, Call_Canny 0, Call_findContours 1,
        Call_fitEllipse c_square, Call_ellipse 0 e_degenerate,
        Print [Str ''Warning: Minor axis is zero. Cannot calculate a meaningful axis ratio. This may indicate a highly elongated or degenerate ellipse fit.''],
        Print [Str ''\<newline>--- Analysis Results ---''],
        Print [Str ''Center of Ellipse: ('', F2 (Finite 5), Str '', '', F2 (Finite 5), Str '')''],
        Print [Str ''Major Axis Length: '', F2 (Finite 0), Str '' pixels''],
        Print [Str ''Minor Axis Length: '', F2 (Finite 5), Str '' pixels''],
        Print [Str ''Orientation Angle: '', F2 (Finite 0), Str '' degrees''],
        Print [Str ''Axis Ratio (Major/Minor): '', F2 PosInf]] @
       possible_astigmatism @
       [Print [Str ''\<newline>------------------------''],
        Call_cvtColor 2 COLOR_BGR2RGB, Show 2 ''Ellipse Fit of Cornea''],
       Inr ())"
    unfolding run2 w2 r2v i2
    by (simp add: selected_trace_def stages_trace_def closing_trace_def results_block_def
        edges_of_def demo_cv_def e_degenerate_def)
  from r1 e1 n1 m1 ar1' t1 r2 e2 z2 t2 show ?thesis by blast
qed

text \<open>
  C2. In every run that reaches the report, with axis ratio \<open>r\<close>, the line
  \<^verbatim>\<open>Interpretation: Possible Astigmatism Detected.\<close> is printed exactly when \<open>r > 1.1\<close>,
  and the line \<^verbatim>\<open>Interpretation: No Significant Astigmatism Indicated by Shape Ratio.\<close>
  exactly when not. The threshold is the float literal \<open>1.1\<close>, the double nearest to
  11/10 (no multiple of \<open>2^-52\<close> lies between the two). A ratio equal to the
  threshold, the real 1.1, 1.099 and NaN are on the "no significant" side; 1.101 and the
  positive infinity are on the "possible" side.
\<close>

theorem classification_by_threshold:
  "(fit_reached (cv :: 'img cv) p img c \<and> fitEllipse cv c = ((x, y), (ma, mi), ang) \<and>
    axis_ratio_of (round_double cv) ma mi = (w :: 'img event list, Inr r) \<longrightarrow>
      (Print [Str ''\<newline>Interpretation: Possible Astigmatism Detected.''] \<in>
         set (fst (analyze_astigmatism cv p)) \<longleftrightarrow> py_gt r threshold) \<and>
      (Print [Str ''\<newline>Interpretation: No Significant Astigmatism Indicated by Shape Ratio.''] \<in>
         set (fst (analyze_astigmatism cv p)) \<longleftrightarrow> \<not> py_gt r threshold)) \<and>
   (\<exists>t. threshold = Finite t \<and> \<bar>t - 11 / 10\<bar> \<le> 1 / 2 ^ 53 \<and>
        (\<forall>k :: int. 11 / 10 < real_of_int k / 2 ^ 52 \<longrightarrow> t \<le> real_of_int k / 2 ^ 52)) \<and>
   \<not> py_gt threshold threshold \<and>
   \<not> py_gt (Finite (11 / 10)) threshold \<and>
   \<not> py_gt (Finite (1099 / 1000)) threshold \<and>
   py_gt (Finite (1101 / 1000)) threshold \<and>
   \<not> py_gt NaN threshold \<and>
   py_gt PosInf threshold"
proof (intro conjI impI)
  assume h: "fit_reached cv p img c \<and> fitEllipse cv c = ((x, y), (ma, mi), ang) \<and>
    axis_ratio_of (round_double cv) ma mi = (w, Inr r)"
  then have h1: "fit_reached cv p img c" and h2: "fitEllipse cv c = ((x, y), (ma, mi), ang)"
    and h3: "axis_ratio_of (round_double cv) ma mi = (w, Inr r)" by simp_all
  have run: "analyze_astigmatism cv p =
           (selected_trace cv p @ stages_trace cv img @
            [Call_fitEllipse c, Call_ellipse img ((x, y), (ma, mi), ang)] @ w @
            results_block ((x, y), (ma, mi), ang) r @ interpretation_of r @
            closing_trace cv img ((x, y), (ma, mi), ang), Inr ())"
    by (rule analyze_astigmatism_success[OF h1 h2 h3])
  have w: "w = [] \<or> w = [Print [Str ''Warning: Minor axis is zero. Cannot calculate a meaningful axis ratio. This may indicate a highly elongated or degenerate ellipse fit.'']]"
    by (rule axis_ratio_of_warning[OF h3])
  from w show "Print [Str ''\<newline>Interpretation: Possible Astigmatism Detected.''] \<in>
         set (fst (analyze_astigmatism cv p)) \<longleftrightarrow> py_gt r threshold"
    unfolding run
    by (auto simp: selected_trace_def stages_trace_def results_block_def closing_trace_def
        interpretation_of_def possible_astigmatism_def no_significant_astigmatism_def)
  from w show "Print [Str ''\<newline>Interpretation: No Significant Astigmatism Indicated by Shape Ratio.''] \<in>
         set (fst (analyze_astigmatism cv p)) \<longleftrightarrow> \<not> py_gt r threshold"
    unfolding run
    by (auto simp: selected_trace_def stages_trace_def results_block_def closing_trace_def
        interpretation_of_def possible_astigmatism_def no_significant_astigmatism_def)
next
  have grid: "(2476979795053773 :: real) / 2251799813685248 \<le> real_of_int k / 2 ^ 52"
    if "11 / 10 < real_of_int k / 2 ^ 52" for k :: int
  proof -
    from that have "11 * (2 :: real) ^ 52 < 10 * real_of_int k"
      by (simp add: field_simps)
    then have "real_of_int (11 * 2 ^ 52) < real_of_int (10 * k)" by simp
    then have "(11 :: int) * 2 ^ 52 < 10 * k" by (simp only: of_int_less_iff)
    then have "4953959590107546 \<le> k" by simp
    then have "real_of_int 4953959590107546 \<le> real_of_int k" by (simp only: of_int_le_iff)
    then show ?thesis by (simp add: field_simps)
  qed
  have "\<bar>(2476979795053773 :: real) / 2251799813685248 - 11 / 10\<bar> \<le> 1 / 2 ^ 53" by simp
  with grid show "\<exists>t. threshold = Finite t \<and> \<bar>t - 11 / 10\<bar> \<le> 1 / 2 ^ 53 \<and>
        (\<forall>k :: int. 11 / 10 < real_of_int k / 2 ^ 52 \<longrightarrow> t \<le> real_of_int k / 2 ^ 52)"
    unfolding threshold_def by blast
qed (simp_all add: py_gt_def threshold_def)

theorem classification_by_threshold_witness:
  "(fit_reached (demo_cv [c_square] e_fit) ''eye.png'' 0 c_square \<and>
    fitEllipse (demo_cv [c_square] e_fit) c_square = ((Finite 5, Finite 5), (Finite 4, Finite 5), Finite 0) \<and>
    axis_ratio_of (round_double (demo_cv [c_square] e_fit)) (Finite 4) (Finite 5) =
      ([] :: nat event list, Inr (Finite (5 / 4))) \<and>
    py_gt (Finite (5 / 4)) threshold \<and>
    Print [Str ''\<newline>Interpretation: Possible Astigmatism Detected.''] \<in>
      set (fst (analyze_astigmatism (demo_cv [c_square] e_fit) ''eye.png'')) \<and>
    Print [Str ''\<newline>Interpretation: No Significant Astigmatism Indicated by Shape Ratio.''] \<notin>
      set (fst (analyze_astigmatism (demo_cv [c_square] e_fit) ''eye.png''))) \<and>
   (fit_reached (demo_cv [c_square] e_round) ''eye.png'' 0 c_square \<and>
    fitEllipse (demo_cv [c_square] e_round) c_square = ((Finite 5, Finite 5), (Finite 5, Finite 5), Finite 0) \<and>
    axis_ratio_of (round_double (demo_cv [c_square] e_round)) (Finite 5) (Finite 5) =
      ([] :: nat event list, Inr (Finite 1)) \<and>
    \<not> py_gt (Finite 1) threshold \<and>
    Print [Str ''\<newline>Interpretation: No Significant Astigmatism Indicated by Shape Ratio.''] \<in>
      set (fst (analyze_astigmatism (demo_cv [c_square] e_round) ''eye.png'')) \<and>
    Print [Str ''\<newline>Interpretation: Possible Astigmatism Detected.''] \<notin>
      set (fst (analyze_astigmatism (demo_cv [c_square] e_round) ''eye.png'')))"
proof -
  let ?fit = "demo_cv [c_square] e_fit"
  let ?rnd = "demo_cv [c_square] e_round"
  have r1: "fit_reached ?fit ''eye.png'' 0 c_square"
    by (simp add: fit_reached_def demo_cv_def contours_of_def py_max_key_def c_square_def)
  have e1: "fitEllipse ?fit c_square = ((Finite 5, Finite 5), (Finite 4, Finite 5), Finite 0)"
    by (simp add: demo_cv_def e_fit_def)
  have a1: "axis_ratio_of (round_double ?fit) (Finite 4) (Finite 5) =
      ([] :: nat event list, Inr (Finite (5 / 4)))"
    by (simp add: axis_ratio_of_def py_min_Finite py_max_Finite py_eq_zero_def demo_cv_def)
  have g1: "py_gt (Finite (5 / 4)) threshold" by (simp add: py_gt_def threshold_def)
  note t1 = classification_by_threshold[of ?fit "''eye.png''" 0 c_square "Finite 5" "Finite 5"
      "Finite 4" "Finite 5" "Finite 0" "[]" "Finite (5 / 4)"]
  from t1 r1 e1 a1 g1 have p1:
    "Print [Str ''\<newline>Interpretation: Possible Astigmatism Detected.''] \<in>
      set (fst (analyze_astigmatism ?fit ''eye.png''))"
    "Print [Str ''\<newline>Interpretation: No Significant Astigmatism Indicated by Shape Ratio.''] \<notin>
      set (fst (analyze_astigmatism ?fit ''eye.png''))"
    by blast+
  have r2: "fit_reached ?rnd ''eye.png'' 0 c_square"
    by (simp add: fit_reached_def demo_cv_def contours_of_def py_max_key_def c_square_def)
  have e2: "fitEllipse ?rnd c_square = ((Finite 5, Finite 5), (Finite 5, Finite 5), Finite 0)"
    by (simp add: demo_cv_def e_round_def)
  have a2: "axis_ratio_of (round_double ?rnd) (Finite 5) (Finite 5) =
      ([] :: nat event list, Inr (Finite 1))"
    by (simp add: axis_ratio_of_def py_min_Finite py_max_Finite py_eq_zero_def demo_cv_def)
  have g2: "\<not> py_gt (Finite 1) threshold" by (simp add: py_gt_def threshold_def)
  note t2 = classification_by_threshold[of ?rnd "''eye.png''" 0 c_square "Finite 5" "Finite 5"
      "Finite 5" "Finite 5" "Finite 0" "[]" "Finite 1"]
  from t2 r2 e2 a2 g2 have p2:
    "Print [Str ''\<newline>Interpretation: No Significant Astigmatism Indicated by Shape Ratio.''] \<in>
      set (fst (analyze_astigmatism ?rnd ''eye.png''))"
    "Print [Str ''\<newline>Interpretation: Possible Astigmatism Detected.''] \<notin>
      set (fst (analyze_astigmatism ?rnd ''eye.png''))"
    by blast+
  from r1 e1 a1 g1 p1 r2 e2 a2 g2 p2 show ?thesis by blast
qed

text \<open>
  C3, at a fit whose first axis is the shorter one (4 against 5, the order in which
  OpenCV returns the axes). The run prints the first fitted axis as the major axis length
  and the second as the minor axis length, unchanged: the value reported as major, 4, is
  below the value reported as minor, 5, while the ratio line reports 5/4.
\<close>

theorem major_axis_reported_below_minor:
  "printed (fst (analyze_astigmatism (demo_cv [c_square] e_fit) ''eye.png'')) =
     [[Str ''Selected image: '', Str ''eye.png''],
      [Str ''\<newline>--- Analysis Results ---''],
      [Str ''Center of Ellipse: ('', F2 (Finite 5), Str '', '', F2 (Finite 5), Str '')''],
      [Str ''Major Axis Length: '', F2 (Finite 4), Str '' pixels''],
      [Str ''Minor Axis Length: '', F2 (Finite 5), Str '' pixels''],
      [Str ''Orientation Angle: '', F2 (Finite 0), Str '' degrees''],
      [Str ''Axis Ratio (Major/Minor): '', F2 (Finite (5 / 4))],
      [Str ''\<newline>Interpretation: Possible Astigmatism Detected.''],
      [Str ''The cornea's shape appears significantly elliptical.''],
      [Str ''\<newline>------------------------'']] \<and>
   snd (analyze_astigmatism (demo_cv [c_square] e_fit) ''eye.png'') = Inr () \<and>
   py_lt (Finite 4) (Finite 5) \<and>
   fitEllipse (demo_cv [c_square] e_fit) c_square =
     ((Finite 5, Finite 5), (Finite 4, Finite 5), Finite 0)"
proof -
  let ?fit = "demo_cv [c_square] e_fit"
  have r: "fit_reached ?fit ''eye.png'' 0 c_square"
    by (simp add: fit_reached_def demo_cv_def contours_of_def py_max_key_def c_square_def)
  have e: "fitEllipse ?fit c_square = ((Finite 5, Finite 5), (Finite 4, Finite 5), Finite 0)"
    by (simp add: demo_cv_def e_fit_def)
  have a: "axis_ratio_of (round_double ?fit) (Finite 4) (Finite 5) =
      ([] :: nat event list, Inr (Finite (5 / 4)))"
    by (simp add: axis_ratio_of_def py_min_Finite py_max_Finite py_eq_zero_def demo_cv_def)
  have i: "interpretation_of (Finite (5 / 4)) = (possible_astigmatism :: nat event list)"
    by (simp add: interpretation_of_def py_gt_def threshold_def)
  show ?thesis
    unfolding analyze_astigmatism_success[OF r e a] i
    by (simp add: e selected_trace_def stages_trace_def results_block_def closing_trace_def
        possible_astigmatism_def printed_simps, simp add: demo_cv_def)
qed

text \<open>
  C4. \<^verbatim>\<open>cv2.fitEllipse\<close> is called only on a contour of at least 5 points, in every run,
  so its precondition holds at every call and the run never raises OpenCV's error. When
  the largest contour has fewer than 5 points the run prints the insufficient-points
  message, shows the edge map and returns, with no fit.
\<close>

theorem fit_only_on_five_points:
  "(\<forall>c. Call_fitEllipse c \<in> set (fst (analyze_astigmatism cv p)) \<longrightarrow> 5 \<le> length c) \<and>
   snd (analyze_astigmatism cv p) \<noteq> Inl CvError \<and>
   (p \<noteq> [] \<and> imread cv p = Some img \<and>
    py_max_key (contourArea cv) (contours_of cv img) = Inr c \<and> length c < 5 \<longrightarrow>
      analyze_astigmatism cv p =
        (selected_trace cv p @ stages_trace cv img @
         [Print [Str ''Not enough points found in the largest contour to fit an ellipse. The contour might be too small, fragmented, or poorly detected.''],
          Show (edges_of cv img) ''Edges Detected (Insufficient Points for Ellipse Fit)''],
         Inr ()) \<and>
      (\<forall>c'. Call_fitEllipse c' \<notin> set (fst (analyze_astigmatism cv p))))"
proof (intro conjI allI impI)
  fix c0 assume "Call_fitEllipse c0 \<in> set (fst (analyze_astigmatism cv p))"
  then show "5 \<le> length c0" by (auto simp: fitEllipse_called_iff fit_reached_def)
next
  show "snd (analyze_astigmatism cv p) \<noteq> Inl CvError"
    by (simp add: analyze_astigmatism_returns)
next
  assume h: "p \<noteq> [] \<and> imread cv p = Some img \<and>
    py_max_key (contourArea cv) (contours_of cv img) = Inr c \<and> length c < 5"
  then show "analyze_astigmatism cv p =
        (selected_trace cv p @ stages_trace cv img @
         [Print [Str ''Not enough points found in the largest contour to fit an ellipse. The contour might be too small, fragmented, or poorly detected.''],
          Show (edges_of cv img) ''Edges Detected (Insufficient Points for Ellipse Fit)''],
         Inr ())"
    by (simp add: analyze_astigmatism_decoded analyze_image_insufficient)
  fix c'
  from h show "Call_fitEllipse c' \<notin> set (fst (analyze_astigmatism cv p))"
    by (auto simp: fitEllipse_called_iff fit_reached_def)
qed

theorem fit_only_on_five_points_witness:
  "(Call_fitEllipse c_square \<in> set (fst (analyze_astigmatism (demo_cv [c_square] e_fit) ''eye.png'')) \<and>
    5 \<le> length c_square) \<and>
   (''eye.png'' \<noteq> [] \<and> imread (demo_cv [c_four] e_fit) ''eye.png'' = Some 0 \<and>
    py_max_key (contourArea (demo_cv [c_four] e_fit)) (contours_of (demo_cv [c_four] e_fit) 0) = Inr c_four \<and>
    length c_four < 5) \<and>
   analyze_astigmatism (demo_cv [c_four] e_fit) ''eye.png'' =
     ([Print [Str ''Selected image: '', Str ''eye.png''], Call_imread ''eye.png'',
       Call_cvtColor 0 COLOR_BGR2GRAY, Call_GaussianBlur 0, Call_Canny 0, Call_findContours 1,
       Print [Str ''Not enough points found in the largest contour to fit an ellipse. The contour might be too small, fragmented, or poorly detected.''],
       Show 1 ''Edges Detected (Insufficient Points for Ellipse Fit)''],
      Inr ())"
proof -
  have r: "fit_reached (demo_cv [c_square] e_fit) ''eye.png'' 0 c_square"
    by (simp add: fit_reached_def demo_cv_def contours_of_def py_max_key_def c_square_def)
  then have a: "Call_fitEllipse c_square \<in> set (fst (analyze_astigmatism (demo_cv [c_square] e_fit) ''eye.png''))"
    using fitEllipse_called_iff by blast
  have h: "''eye.png'' \<noteq> [] \<and> imread (demo_cv [c_four] e_fit) ''eye.png'' = Some 0 \<and>
    py_max_key (contourArea (demo_cv [c_four] e_fit)) (contours_of (demo_cv [c_four] e_fit) 0) = Inr c_four \<and>
    length c_four < 5"
    by (simp add: demo_cv_def contours_of_def py_max_key_def c_four_def)
  from fit_only_on_five_points[of "demo_cv [c_square] e_fit" "''eye.png''"] a
  have b: "5 \<le> length c_square" by blast
  from fit_only_on_five_points[of "demo_cv [c_four] e_fit" "''eye.png''" 0 c_four] h
  have "analyze_astigmatism (demo_cv [c_four] e_fit) ''eye.png'' =
        (selected_trace (demo_cv [c_four] e_fit) ''eye.png'' @ stages_trace (demo_cv [c_four] e_fit) 0 @
         [Print [Str ''Not enough points found in the largest contour to fit an ellipse. The contour might be too small, fragmented, or poorly detected.''],
          Show (edges_of (demo_cv [c_four] e_fit) 0) ''Edges Detected (Insufficient Points for Ellipse Fit)''],
         Inr ())" by blast
  then have c: "analyze_astigmatism (demo_cv [c_four] e_fit) ''eye.png'' =
     ([Print [Str ''Selected image: '', Str ''eye.png''], Call_imread ''eye.png'',
       Call_cvtColor 0 COLOR_BGR2GRAY, Call_GaussianBlur 0, Call_Canny 0, Call_findContours 1,
       Print [Str ''Not enough points found in the largest contour to fit an ellipse. The contour might be too small, fragmented, or poorly detected.''],
       Show 1 ''Edges Detected (Insufficient Points for Ellipse Fit)''],
      Inr ())"
    by (simp add: selected_trace_def stages_trace_def edges_of_def demo_cv_def)
  from a b h c show ?thesis by blast
qed

text \<open>
  C5. Of a non-empty sequence of contours the one selected is
  \<^verbatim>\<open>max(contours, key=cv2.contourArea)\<close>: its area is maximal, every contour before it
  in extraction order has a strictly smaller area (the first maximum), and these two
  properties fix its position; any contour the fit is called on is that one. The key is
  the area alone, so neither the number of points nor the order otherwise matters.
\<close>

theorem largest_contour_first_max_area:
  assumes "p \<noteq> []" and "imread cv p = Some img" and "contours_of cv img \<noteq> []"
  shows "\<exists>i<length (contours_of cv img).
           py_max_key (contourArea cv) (contours_of cv img) = Inr (contours_of cv img ! i) \<and>
           (\<forall>j<length (contours_of cv img).
              contourArea cv (contours_of cv img ! j) \<le> contourArea cv (contours_of cv img ! i)) \<and>
           (\<forall>j<i. contourArea cv (contours_of cv img ! j) < contourArea cv (contours_of cv img ! i)) \<and>
           (\<forall>k<length (contours_of cv img).
              (\<forall>j<length (contours_of cv img).
                 contourArea cv (contours_of cv img ! j) \<le> contourArea cv (contours_of cv img ! k)) \<and>
              (\<forall>j<k. contourArea cv (contours_of cv img ! j) < contourArea cv (contours_of cv img ! k))
              \<longrightarrow> k = i) \<and>
           (\<forall>c. Call_fitEllipse c \<in> set (fst (analyze_astigmatism cv p)) \<longrightarrow>
                c = contours_of cv img ! i)"
proof -
  let ?cs = "contours_of cv img" and ?key = "contourArea cv"
  from py_max_key_first_max[OF assms(3), of ?key] obtain i where
    i: "i < length ?cs" and sel: "py_max_key ?key ?cs = Inr (?cs ! i)" and
    le: "\<forall>j<length ?cs. ?key (?cs ! j) \<le> ?key (?cs ! i)" and
    lt: "\<forall>j<i. ?key (?cs ! j) < ?key (?cs ! i)"
    by blast
  have uniq: "k = i"
    if k: "k < length ?cs" and kle: "\<forall>j<length ?cs. ?key (?cs ! j) \<le> ?key (?cs ! k)"
      and klt: "\<forall>j<k. ?key (?cs ! j) < ?key (?cs ! k)" for k
  proof (rule ccontr)
    assume "k \<noteq> i"
    then consider "k < i" | "i < k" by linarith
    then show False
    proof cases
      case 1
      with lt have "?key (?cs ! k) < ?key (?cs ! i)" by simp
      moreover from kle i have "?key (?cs ! i) \<le> ?key (?cs ! k)" by simp
      ultimately show False by simp
    next
      case 2
      with klt have "?key (?cs ! i) < ?key (?cs ! k)" by simp
      moreover from le k have "?key (?cs ! k) \<le> ?key (?cs ! i)" by simp
      ultimately show False by simp
    qed
  qed
  have fit: "c = ?cs ! i" if "Call_fitEllipse c \<in> set (fst (analyze_astigmatism cv p))" for c
  proof -
    from that have "\<exists>img'. fit_reached cv p img' c"
      by (simp only: fitEllipse_called_iff)
    then obtain img' where "fit_reached cv p img' c" ..
    with assms(2) sel show ?thesis by (simp add: fit_reached_def)
  qed
  from i sel le lt uniq fit show ?thesis by blast
qed

theorem largest_contour_first_max_area_witness:
  "''eye.png'' \<noteq> [] \<and>
   imread (demo_cv [c_thin, c_square, c_square'] e_fit) ''eye.png'' = Some 0 \<and>
   contours_of (demo_cv [c_thin, c_square, c_square'] e_fit) 0 = [c_thin, c_square, c_square'] \<and>
   py_max_key shoelace_area [c_thin, c_square, c_square'] = Inr c_square \<and>
   shoelace_area c_thin = 60 \<and> shoelace_area c_square = 100 \<and> shoelace_area c_square' = 100 \<and>
   length c_square < length c_thin \<and>
   Call_fitEllipse c_square \<in>
     set (fst (analyze_astigmatism (demo_cv [c_thin, c_square, c_square'] e_fit) ''eye.png'')) \<and>
   Call_fitEllipse c_thin \<notin>
     set (fst (analyze_astigmatism (demo_cv [c_thin, c_square, c_square'] e_fit) ''eye.png'')) \<and>
   Call_fitEllipse c_square' \<notin>
     set (fst (analyze_astigmatism (demo_cv [c_thin, c_square, c_square'] e_fit) ''eye.png''))"
proof -
  let ?cv = "demo_cv [c_thin, c_square, c_square'] e_fit"
  have h1: "''eye.png'' \<noteq> []" by simp
  have h2: "imread ?cv ''eye.png'' = Some 0" by (simp add: demo_cv_def)
  have cs: "contours_of ?cv 0 = [c_thin, c_square, c_square']"
    by (simp add: contours_of_def demo_cv_def)
  have h3: "contours_of ?cv 0 \<noteq> []" by (simp add: cs)
  have key: "contourArea ?cv = shoelace_area" by (simp add: demo_cv_def)
  have a1: "shoelace_area c_thin = 60" by (simp add: shoelace_area_def c_thin_def)
  have a2: "shoelace_area c_square = 100" by (simp add: shoelace_area_def c_square_def)
  have a3: "shoelace_area c_square' = 100" by (simp add: shoelace_area_def c_square'_def)
  have sel: "py_max_key shoelace_area [c_thin, c_square, c_square'] = Inr c_square"
    by (simp add: py_max_key_def a1 a2 a3)
  from largest_contour_first_max_area[OF h1 h2 h3] obtain i where
    "py_max_key (contourArea ?cv) (contours_of ?cv 0) = Inr (contours_of ?cv 0 ! i)" and
    fit: "\<forall>c. Call_fitEllipse c \<in> set (fst (analyze_astigmatism ?cv ''eye.png'')) \<longrightarrow>
                c = contours_of ?cv 0 ! i"
    by blast
  then have "contours_of ?cv 0 ! i = c_square" by (simp add: cs key sel)
  with fit have only: "\<forall>c. Call_fitEllipse c \<in> set (fst (analyze_astigmatism ?cv ''eye.png'')) \<longrightarrow>
                c = c_square" by simp
  have "c_thin \<noteq> c_square" "c_square' \<noteq> c_square"
    by (simp_all add: c_thin_def c_square_def c_square'_def)
  with only have others:
    "Call_fitEllipse c_thin \<notin> set (fst (analyze_astigmatism ?cv ''eye.png''))"
    "Call_fitEllipse c_square' \<notin> set (fst (analyze_astigmatism ?cv ''eye.png''))"
    by blast+
  have "5 \<le> length c_square" by (simp add: c_square_def)
  then have "fit_reached ?cv ''eye.png'' 0 c_square"
    using h2 sel by (simp add: fit_reached_def cs key)
  then have called: "Call_fitEllipse c_square \<in> set (fst (analyze_astigmatism ?cv ''eye.png''))"
    unfolding fitEllipse_called_iff by blast
  have fewer: "length c_square < length c_thin" by (simp add: c_square_def c_thin_def)
  from h1 h2 cs sel a1 a2 a3 fewer called others show ?thesis by blast
qed

text \<open>
  C7. When the image decoded and \<^verbatim>\<open>cv2.findContours\<close> returns no contour, the run prints
  the no-contours message, shows the original image (converted from BGR to RGB for
  display, under the title of that case) and returns without raising: after the contour
  extraction no further stage runs, so no contour is selected and no ellipse is fitted or
  drawn.
\<close>

theorem no_contours_halts:
  assumes "p \<noteq> []" and "imread cv p = Some img" and "contours_of cv img = []"
  shows "analyze_astigmatism cv p =
           (selected_trace cv p @ stages_trace cv img @
            [Print [Str ''No contours found in the image. Ensure the image clearly shows the eye/cornea with good contrast.''],
             Call_cvtColor img COLOR_BGR2RGB,
             Show (cvtColor cv img COLOR_BGR2RGB) ''Original Image (No Contours Found)''],
            Inr ()) \<and>
         (\<forall>c. Call_fitEllipse c \<notin> set (fst (analyze_astigmatism cv p))) \<and>
         (\<forall>i e. Call_ellipse i e \<notin> set (fst (analyze_astigmatism cv p))) \<and>
         [s \<leftarrow> fst (analyze_astigmatism cv p). \<exists>i t. s = Show i t] =
           [Show (cvtColor cv img COLOR_BGR2RGB) ''Original Image (No Contours Found)'']"
  by (simp add: analyze_astigmatism_decoded[OF assms(1,2)] analyze_image_no_contours[OF assms(3)]
      selected_trace_def stages_trace_def)

theorem no_contours_halts_witness:
  "''eye.png'' \<noteq> [] \<and> imread (demo_cv [] e_fit) ''eye.png'' = Some 0 \<and>
   contours_of (demo_cv [] e_fit) 0 = [] \<and>
   analyze_astigmatism (demo_cv [] e_fit) ''eye.png'' =
     ([Print [Str ''Selected image: '', Str ''eye.png''], Call_imread ''eye.png'',
       Call_cvtColor 0 COLOR_BGR2GRAY, Call_GaussianBlur 0, Call_Canny 0, Call_findContours 1,
       Print [Str ''No contours found in the image. Ensure the image clearly shows the eye/cornea with good contrast.''],
       Call_cvtColor 0 COLOR_BGR2RGB,
       Show 0 ''Original Image (No Contours Found)''],
      Inr ())"
proof -
  have h1: "''eye.png'' \<noteq> []" by simp
  have h2: "imread (demo_cv [] e_fit) ''eye.png'' = Some 0" by (simp add: demo_cv_def)
  have h3: "contours_of (demo_cv [] e_fit) 0 = []" by (simp add: contours_of_def demo_cv_def)
  from no_contours_halts[OF h1 h2 h3] h1 h2 h3 show ?thesis
    by (simp add: selected_trace_def stages_trace_def edges_of_def demo_cv_def)
qed

text \<open>
  C8. When a file was chosen and \<^verbatim>\<open>cv2.imread\<close> returns \<^verbatim>\<open>None\<close> for it, the run prints
  the selection line, attempts the decode, prints the decode-failure message, whose text
  contains the path, and returns: no colour conversion, blur, edge detection, contour
  extraction or fit is called and nothing is shown.
\<close>

theorem decode_failure_halts:
  assumes "p \<noteq> []" and "imread cv p = None"
  shows "analyze_astigmatism cv p =
           ([Print [Str ''Selected image: '', Str (basename cv p)],
             Call_imread p,
             Print [Str ''Error: Could not load image from '', Str [CHR 0x27], Str p, Str [CHR 0x27],
                    Str ''. Please check if the file exists and is a valid image format.'']],
            Inr ()) \<and>
         sublist p (render fmt (last [ps. Print ps \<leftarrow> fst (analyze_astigmatism cv p)])) \<and>
         render fmt (last [ps. Print ps \<leftarrow> fst (analyze_astigmatism cv p)]) =
           ''Error: Could not load image from '' @ [CHR 0x27] @ p @ [CHR 0x27] @
           ''. Please check if the file exists and is a valid image format.''"
proof -
  have run: "analyze_astigmatism cv p =
           ([Print [Str ''Selected image: '', Str (basename cv p)],
             Call_imread p,
             Print [Str ''Error: Could not load image from '', Str [CHR 0x27], Str p, Str [CHR 0x27],
                    Str ''. Please check if the file exists and is a valid image format.'']],
            Inr ())"
    using assms by (simp add: analyze_astigmatism_def)
  have msg: "render fmt (last [ps. Print ps \<leftarrow> fst (analyze_astigmatism cv p)]) =
           ''Error: Could not load image from '' @ [CHR 0x27] @ p @ [CHR 0x27] @
           ''. Please check if the file exists and is a valid image format.''"
    by (simp add: run render_def)
  have "sublist p (render fmt (last [ps. Print ps \<leftarrow> fst (analyze_astigmatism cv p)]))"
    unfolding msg sublist_def
    by (intro exI[of _ "''Error: Could not load image from '' @ [CHR 0x27]"]
        exI[of _ "[CHR 0x27] @ ''. Please check if the file exists and is a valid image format.''"])
       simp
  with run msg show ?thesis by blast
qed

theorem decode_failure_halts_witness:
  "''notes.txt'' \<noteq> [] \<and> imread (demo_cv [c_square] e_fit) ''notes.txt'' = None \<and>
   fst (analyze_astigmatism (demo_cv [c_square] e_fit) ''notes.txt'') =
     [Print [Str ''Selected image: '', Str ''notes.txt''],
      Call_imread ''notes.txt'',
      Print [Str ''Error: Could not load image from '', Str [CHR 0x27], Str ''notes.txt'', Str [CHR 0x27],
             Str ''. Please check if the file exists and is a valid image format.'']] \<and>
   sublist ''notes.txt''
     (render (\<lambda>x. ''?'') (last [ps. Print ps \<leftarrow> fst (analyze_astigmatism (demo_cv [c_square] e_fit) ''notes.txt'')]))"
proof -
  have h1: "''notes.txt'' \<noteq> []" by simp
  have h2: "imread (demo_cv [c_square] e_fit) ''notes.txt'' = None" by (simp add: demo_cv_def)
  note run = decode_failure_halts[OF h1 h2, of "\<lambda>x. ''?''"]
  from run have "fst (analyze_astigmatism (demo_cv [c_square] e_fit) ''notes.txt'') =
     [Print [Str ''Selected image: '', Str ''notes.txt''],
      Call_imread ''notes.txt'',
      Print [Str ''Error: Could not load image from '', Str [CHR 0x27], Str ''notes.txt'', Str [CHR 0x27],
             Str ''. Please check if the file exists and is a valid image format.'']]"
    by (simp add: demo_cv_def)
  moreover from run have "sublist ''notes.txt''
     (render (\<lambda>x. ''?'') (last [ps. Print ps \<leftarrow> fst (analyze_astigmatism (demo_cv [c_square] e_fit) ''notes.txt'')]))"
    by blast
  ultimately show ?thesis using h1 h2 by blast
qed

text \<open>
  C9. When the file dialog is dismissed (empty selection) the run prints exactly
  \<^verbatim>\<open>No image selected. Exiting.\<close> and returns: that print is the whole trace, so nothing
  is decoded, no OpenCV stage is called and nothing is shown.
\<close>

theorem empty_selection_exits:
  "analyze_astigmatism cv [] = ([Print [Str ''No image selected. Exiting.'']], Inr ()) \<and>
   map (render fmt) [ps. Print ps \<leftarrow> fst (analyze_astigmatism cv [])] =
     [''No image selected. Exiting.'']"
  by (simp add: analyze_astigmatism_def render_def)

text \<open>
  C10. In a run that reaches the fit with \<^verbatim>\<open>min(major_axis, minor_axis) == 0\<close>, the ratio
  is the positive infinity, which is greater than the threshold: after the warning the
  results block reports the infinite ratio and the interpretation printed is
  \<^verbatim>\<open>Possible Astigmatism Detected\<close>; the other interpretation is not printed, and the
  run ends with the figure as any other.
\<close>

theorem degenerate_fit_reported_possible:
  assumes "fit_reached cv p img c" and "fitEllipse cv c = ((x, y), (ma, mi), ang)"
    and "py_eq_zero (py_min ma mi)"
  shows "analyze_astigmatism cv p =
           (selected_trace cv p @ stages_trace cv img @
            [Call_fitEllipse c, Call_ellipse img ((x, y), (ma, mi), ang),
             Print [Str ''Warning: Minor axis is zero. Cannot calculate a meaningful axis ratio. This may indicate a highly elongated or degenerate ellipse fit.'']] @
            results_block ((x, y), (ma, mi), ang) PosInf @
            [Print [Str ''\<newline>Interpretation: Possible Astigmatism Detected.''],
             Print [Str ''The cornea's shape appears significantly elliptical.'']] @
            closing_trace cv img ((x, y), (ma, mi), ang), Inr ()) \<and>
         py_gt PosInf threshold \<and>
         Print [Str ''Axis Ratio (Major/Minor): '', F2 PosInf] \<in> set (fst (analyze_astigmatism cv p)) \<and>
         Print [Str ''\<newline>Interpretation: No Significant Astigmatism Indicated by Shape Ratio.''] \<notin>
           set (fst (analyze_astigmatism cv p))"
proof -
  have ar: "axis_ratio_of (round_double cv) ma mi =
    ([Print [Str ''Warning: Minor axis is zero. Cannot calculate a meaningful axis ratio. This may indicate a highly elongated or degenerate ellipse fit.'']] :: 'a event list,
     Inr PosInf)"
    using assms(3) by (simp add: axis_ratio_of_def)
  have interp: "interpretation_of PosInf =
     ([Print [Str ''\<newline>Interpretation: Possible Astigmatism Detected.''],
       Print [Str ''The cornea's shape appears significantly elliptical.'']] :: 'a event list)"
    by (simp add: interpretation_of_def py_gt_PosInf_threshold possible_astigmatism_def)
  have run: "analyze_astigmatism cv p =
           (selected_trace cv p @ stages_trace cv img @
            [Call_fitEllipse c, Call_ellipse img ((x, y), (ma, mi), ang),
             Print [Str ''Warning: Minor axis is zero. Cannot calculate a meaningful axis ratio. This may indicate a highly elongated or degenerate ellipse fit.'']] @
            results_block ((x, y), (ma, mi), ang) PosInf @
            [Print [Str ''\<newline>Interpretation: Possible Astigmatism Detected.''],
             Print [Str ''The cornea's shape appears significantly elliptical.'']] @
            closing_trace cv img ((x, y), (ma, mi), ang), Inr ())"
    by (simp add: analyze_astigmatism_success[OF assms(1,2) ar] interp)
  have ratio: "Print [Str ''Axis Ratio (Major/Minor): '', F2 PosInf] \<in> set (fst (analyze_astigmatism cv p))"
    unfolding run by (simp add: results_block_def)
  have none: "Print [Str ''\<newline>Interpretation: No Significant Astigmatism Indicated by Shape Ratio.''] \<notin>
           set (fst (analyze_astigmatism cv p))"
    unfolding run
    by (simp add: selected_trace_def stages_trace_def results_block_def closing_trace_def)
  from run ratio none py_gt_PosInf_threshold show ?thesis by blast
qed

theorem degenerate_fit_reported_possible_witness:
  "fit_reached (demo_cv [c_square] e_degenerate) ''eye.png'' 0 c_square \<and>
   fitEllipse (demo_cv [c_square] e_degenerate) c_square =
     ((Finite 5, Finite 5), (Finite 0, Finite 5), Finite 0) \<and>
   py_eq_zero (py_min (Finite 0) (Finite 5)) \<and>
   Print [Str ''Axis Ratio (Major/Minor): '', F2 PosInf] \<in>
     set (fst (analyze_astigmatism (demo_cv [c_square] e_degenerate) ''eye.png'')) \<and>
   Print [Str ''\<newline>Interpretation: No Significant Astigmatism Indicated by Shape Ratio.''] \<notin>
     set (fst (analyze_astigmatism (demo_cv [c_square] e_degenerate) ''eye.png'')) \<and>
   [ps. Print ps \<leftarrow> fst (analyze_astigmatism (demo_cv [c_square] e_degenerate) ''eye.png'')] =
     [[Str ''Selected image: '', Str ''eye.png''],
      [Str ''Warning: Minor axis is zero. Cannot calculate a meaningful axis ratio. This may indicate a highly elongated or degenerate ellipse fit.''],
      [Str ''\<newline>--- Analysis Results ---''],
      [Str ''Center of Ellipse: ('', F2 (Finite 5), Str '', '', F2 (Finite 5), Str '')''],
      [Str ''Major Axis Length: '', F2 (Finite 0), Str '' pixels''],
      [Str ''Minor Axis Length: '', F2 (Finite 5), Str '' pixels''],
      [Str ''Orientation Angle: '', F2 (Finite 0), Str '' degrees''],
      [Str ''Axis Ratio (Major/Minor): '', F2 PosInf],
      [Str ''\<newline>Interpretation: Possible Astigmatism Detected.''],
      [Str ''The cornea's shape appears significantly elliptical.''],
      [Str ''\<newline>------------------------'']]"
proof -
  let ?deg = "demo_cv [c_square] e_degenerate"
  have h1: "fit_reached ?deg ''eye.png'' 0 c_square"
    by (simp add: fit_reached_def demo_cv_def contours_of_def py_max_key_def c_square_def)
  have h2: "fitEllipse ?deg c_square = ((Finite 5, Finite 5), (Finite 0, Finite 5), Finite 0)"
    by (simp add: demo_cv_def e_degenerate_def)
  have h3: "py_eq_zero (py_min (Finite 0) (Finite 5))"
    by (simp add: py_min_Finite py_eq_zero_def)
  note t = degenerate_fit_reported_possible[OF h1 h2 h3]
  from t have run: "analyze_astigmatism ?deg ''eye.png'' =
           (selected_trace ?deg ''eye.png'' @ stages_trace ?deg 0 @
            [Call_fitEllipse c_square, Call_ellipse 0 ((Finite 5, Finite 5), (Finite 0, Finite 5), Finite 0),
             Print [Str ''Warning: Minor axis is zero. Cannot calculate a meaningful axis ratio. This may indicate a highly elongated or degenerate ellipse fit.'']] @
            results_block ((Finite 5, Finite 5), (Finite 0, Finite 5), Finite 0) PosInf @
            [Print [Str ''\<newline>Interpretation: Possible Astigmatism Detected.''],
             Print [Str ''The cornea's shape appears significantly elliptical.'']] @
            closing_trace ?deg 0 ((Finite 5, Finite 5), (Finite 0, Finite 5), Finite 0), Inr ())"
    by (rule conjunct1)
  have prints: "[ps. Print ps \<leftarrow> fst (analyze_astigmatism ?deg ''eye.png'')] =
     [[Str ''Selected image: '', Str ''eye.png''],
      [Str ''Warning: Minor axis is zero. Cannot calculate a meaningful axis ratio. This may indicate a highly elongated or degenerate ellipse fit.''],
      [Str ''\<newline>--- Analysis Results ---''],
      [Str ''Center of Ellipse: ('', F2 (Finite 5), Str '', '', F2 (Finite 5), Str '')''],
      [Str ''Major Axis Length: '', F2 (Finite 0), Str '' pixels''],
      [Str ''Minor Axis Length: '', F2 (Finite 5), Str '' pixels''],
      [Str ''Orientation Angle: '', F2 (Finite 0), Str '' degrees''],
      [Str ''Axis Ratio (Major/Minor): '', F2 PosInf],
      [Str ''\<newline>Interpretation: Possible Astigmatism Detected.''],
      [Str ''The cornea's shape appears significantly elliptical.''],
      [Str ''\<newline>------------------------'']]"
    unfolding run
    by (simp add: selected_trace_def stages_trace_def results_block_def closing_trace_def demo_cv_def)
  from t h1 h2 h3 prints show ?thesis by blast
qed

end
